theory Spec2Isabelle
  imports Main
begin

section \<open>Strings of the client\<close>

text \<open>
  A JavaScript string is modelled as the list of its code units, restricted to the code
  units below 256, so that it is an Isabelle \<open>string\<close>. A string is truthy when it is
  not empty.
\<close>

definition is_white_space :: "char \<Rightarrow> bool" where
  \<comment> \<open>The code units that \<open>String.prototype.trim\<close> removes, among those below 256:
      TAB, LF, VT, FF, CR, SP and NBSP.\<close>
  "is_white_space c = (of_char c \<in> {9, 10, 11, 12, 13, 32, 160 :: nat})"

definition trim :: "string \<Rightarrow> string" where
  \<comment> \<open>\<open>s.trim()\<close>: white space is removed at both ends.\<close>
  "trim s = rev (dropWhile is_white_space (rev (dropWhile is_white_space s)))"

definition digit_char :: "nat \<Rightarrow> char" where
  "digit_char d = char_of (48 + d)"

fun show_nat :: "nat \<Rightarrow> string" where
  \<comment> \<open>The decimal rendering of a non-negative integer inside a template literal.\<close>
  "show_nat n = (if n < 10 then [digit_char n] else show_nat (n div 10) @ [digit_char (n mod 10)])"

declare show_nat.simps [simp del]

fun starts_with :: "string \<Rightarrow> string \<Rightarrow> bool" where
  "starts_with s [] = True"
| "starts_with [] (p # ps) = False"
| "starts_with (c # cs) (p # ps) = (c = p \<and> starts_with cs ps)"

fun includes_str :: "string \<Rightarrow> string \<Rightarrow> bool" where
  \<comment> \<open>\<open>s.includes(p)\<close>: \<open>p\<close> occurs in \<open>s\<close> at some position.\<close>
  "includes_str [] p = (p = [])"
| "includes_str (c # cs) p = (starts_with (c # cs) p \<or> includes_str cs p)"

subsection \<open>The regular expression of the base path\<close>

definition slashes_to_end :: "string \<Rightarrow> bool" where
  \<comment> \<open>\<open>/\/+$/\<close> matches at the start of \<open>cs\<close>: one or more slashes, then the end of the
      input.\<close>
  "slashes_to_end cs = (cs \<noteq> [] \<and> list_all (\<lambda>c. c = CHR ''/'') cs)"

fun replace_slashes_at_end :: "string \<Rightarrow> string" where
  \<comment> \<open>\<open>s.replace(/\/+$/, "")\<close>: the leftmost match is replaced by the empty string; a
      string without a match is returned as it is.\<close>
  "replace_slashes_at_end [] = []"
| "replace_slashes_at_end (c # cs) =
     (if slashes_to_end (c # cs) then [] else c # replace_slashes_at_end cs)"

definition without_trailing_slashes :: "string \<Rightarrow> string" where
  \<comment> \<open>The specification's wording: all trailing slashes removed.\<close>
  "without_trailing_slashes s = rev (dropWhile (\<lambda>c. c = CHR ''/'') (rev s))"

section \<open>The base path\<close>

definition API_BASE :: "string option \<Rightarrow> string" where
  \<comment> \<open>\<open>src/frontend/src/App.tsx\<close>, lines 5 to 8. The argument is
      \<open>import.meta.env.VITE_API_URL\<close>: \<open>None\<close> when it is undefined. An empty override is
      falsy and takes the default.\<close>
  "API_BASE VITE_API_URL =
     (case VITE_API_URL of
        None \<Rightarrow> ''/api''
      | Some url \<Rightarrow> if url \<noteq> [] then replace_slashes_at_end url @ ''/api'' else ''/api'')"

definition API_BASE_part_000 :: "string option \<Rightarrow> string" where
  \<comment> \<open>\<open>src/unnamed/part_000\<close>, lines 5 to 8: the override is used as it is.\<close>
  "API_BASE_part_000 VITE_API_URL =
     (case VITE_API_URL of
        None \<Rightarrow> ''/api''
      | Some url \<Rightarrow> if url \<noteq> [] then url @ ''/api'' else ''/api'')"

definition spec_base_path :: "string option \<Rightarrow> string" where
  \<comment> \<open>The specification's wording: the override without its trailing slashes, then
      \<open>/api\<close>; \<open>/api\<close> alone without an override.\<close>
  "spec_base_path override =
     (case override of
        None \<Rightarrow> ''/api''
      | Some url \<Rightarrow> without_trailing_slashes url @ ''/api'')"

section \<open>The request helper\<close>

datatype thrown = ErrorObj string | NonError
  \<comment> \<open>A thrown value: an instance of \<open>Error\<close> with its message, or any other value.\<close>

record 'a response =
  status :: nat
  content_type :: "string option"
  body_text :: "thrown + string"
  body_json :: "thrown + 'a"
  \<comment> \<open>What the client reads of a response: \<open>res.status\<close> (an unsigned short),
      \<open>res.headers.get("content-type")\<close>, what \<open>res.text()\<close> resolves to or rejects
      with, and what \<open>res.json()\<close> resolves to or rejects with.\<close>

definition ok :: "('a, 'b) response_scheme \<Rightarrow> bool" where
  \<comment> \<open>\<open>res.ok\<close>: the status is in the range 200 to 299.\<close>
  "ok res = (200 \<le> status res \<and> status res \<le> 299)"

definition request_failed :: "nat \<Rightarrow> string" where
  "request_failed st = ''Request failed ('' @ show_nat st @ '')''"

definition api :: "thrown + 'a response \<Rightarrow> thrown + 'a option" where
  \<comment> \<open>\<open>api\<close>, lines 12 to 28, after \<open>fetch\<close> has settled: rejected with a thrown value or
      resolved to a response. A rejection of \<open>await res.text()\<close> or of
      \<open>await res.json()\<close> leaves \<open>api\<close> as it is thrown. The result \<open>Inr None\<close> is
      \<open>undefined\<close>.\<close>
  "api fetched =
     (case fetched of
        Inl e \<Rightarrow> Inl e
      | Inr res \<Rightarrow>
          if \<not> ok res then
            (case body_text res of
               Inl e \<Rightarrow> Inl e
             | Inr text \<Rightarrow>
                 Inl (ErrorObj (if text \<noteq> [] then text else request_failed (status res))))
          else if includes_str (case content_type res of None \<Rightarrow> [] | Some ct \<Rightarrow> ct)
                    ''application/json''
          then (case body_json res of Inl e \<Rightarrow> Inl e | Inr v \<Rightarrow> Inr (Some v))
          else Inr None)"

section \<open>The state of the component\<close>

record Note =
  note_id :: nat
  note_text :: string
  created_at :: string
  updated_at :: string

record state =
  notes_s :: "Note list"
  newText :: string
  err :: string
  isLoading :: bool
  isAdding :: bool
  deletingId :: "nat option"
  editingId :: "nat option"
  editingText :: string
  savingEdit :: bool

definition initial_state :: state where
  \<comment> \<open>The arguments of the \<open>useState\<close> calls, lines 31 to 43.\<close>
  "initial_state =
     \<lparr>notes_s = [], newText = [], err = [], isLoading = True, isAdding = False,
      deletingId = None, editingId = None, editingText = [], savingEdit = False\<rparr>"

definition canAdd :: "state \<Rightarrow> bool" where
  "canAdd s = (0 < length (trim (newText s)) \<and> \<not> isAdding s)"

subsection \<open>Requests and suspended calls\<close>

datatype request =
    GET_notes
  | POST_notes string
  | PUT_note nat string
  | DELETE_note nat
  \<comment> \<open>The four calls of \<open>api\<close>, by method and path: \<open>GET /notes\<close>, \<open>POST /notes\<close>,
      \<open>PUT /notes/${editingId}\<close> and \<open>DELETE /notes/${id}\<close>. The string is the member
      \<open>text\<close> of the JSON body, the number is the id that the template literal writes
      into the path.\<close>

datatype payload = Notes "Note list" | One Note | Deleted bool nat
  \<comment> \<open>The JSON values of the success responses.\<close>

datatype suspended =
    In_loadNotes
  | In_addNote
  | In_saveEdit
  | In_deleteNote nat "nat option"
  \<comment> \<open>An asynchronous function waiting at its \<open>await\<close>, with the variables of its closure
      that the rest of its body reads: \<open>deleteNote\<close> reads its parameter \<open>id\<close> and the
      \<open>editingId\<close> of the render in which it was called.\<close>

type_synonym started = "state \<times> (suspended \<times> request) option"

definition message_of :: "thrown \<Rightarrow> string \<Rightarrow> string" where
  \<comment> \<open>\<open>e instanceof Error ? e.message : fallback\<close>\<close>
  "message_of e fallback = (case e of ErrorObj m \<Rightarrow> m | NonError \<Rightarrow> fallback)"

subsection \<open>The handlers, up to their await\<close>

definition loadNotes :: "state \<Rightarrow> started" where
  "loadNotes s = (s\<lparr>err := [], isLoading := True\<rparr>, Some (In_loadNotes, GET_notes))"

definition addNote :: "state \<Rightarrow> started" where
  "addNote s =
     (let t = trim (newText s) in
      if t = [] \<or> isAdding s then (s, None)
      else (s\<lparr>err := [], isAdding := True\<rparr>, Some (In_addNote, POST_notes t)))"

definition startEdit :: "Note \<Rightarrow> state \<Rightarrow> state" where
  "startEdit n s = s\<lparr>err := [], editingId := Some (note_id n), editingText := note_text n\<rparr>"

definition cancelEdit :: "state \<Rightarrow> state" where
  "cancelEdit s = s\<lparr>editingId := None, editingText := [], savingEdit := False\<rparr>"

definition saveEdit :: "state \<Rightarrow> started" where
  "saveEdit s =
     (case editingId s of
        None \<Rightarrow> (s, None)
      | Some i \<Rightarrow>
          let t = trim (editingText s) in
          if t = [] \<or> savingEdit s then (s, None)
          else (s\<lparr>err := [], savingEdit := True\<rparr>, Some (In_saveEdit, PUT_note i t)))"

definition deleteNote :: "nat \<Rightarrow> state \<Rightarrow> started" where
  "deleteNote i s =
     (if deletingId s \<noteq> None then (s, None)
      else (s\<lparr>err := [], deletingId := Some i\<rparr>,
            Some (In_deleteNote i (editingId s), DELETE_note i)))"

subsection \<open>The handlers, after their await\<close>

text \<open>
  The first argument is what the awaited call of \<open>api\<close> settled with, the second the
  state of the component at that moment: the state updates of the rest of the body
  apply to it.
\<close>

definition loadNotes_resume :: "thrown + Note list \<Rightarrow> state \<Rightarrow> state" where
  "loadNotes_resume r s =
     (case r of
        Inr data \<Rightarrow> s\<lparr>notes_s := data, isLoading := False\<rparr>
      | Inl e \<Rightarrow> s\<lparr>err := message_of e ''Failed to load notes.'', isLoading := False\<rparr>)"

definition addNote_resume :: "thrown + Note \<Rightarrow> state \<Rightarrow> state" where
  "addNote_resume r s =
     (case r of
        Inr created \<Rightarrow> s\<lparr>notes_s := created # notes_s s, newText := [], isAdding := False\<rparr>
      | Inl e \<Rightarrow> s\<lparr>err := message_of e ''Failed to add note.'', isAdding := False\<rparr>)"

definition saveEdit_resume :: "thrown + Note \<Rightarrow> state \<Rightarrow> state" where
  "saveEdit_resume r s =
     (case r of
        Inr updated \<Rightarrow>
          cancelEdit
            (s\<lparr>notes_s := map (\<lambda>n. if note_id n = note_id updated then updated else n) (notes_s s)\<rparr>)
      | Inl e \<Rightarrow> s\<lparr>err := message_of e ''Failed to update note.'', savingEdit := False\<rparr>)"

definition deleteNote_resume ::
  "nat \<Rightarrow> nat option \<Rightarrow> thrown + payload option \<Rightarrow> state \<Rightarrow> state" where
  \<comment> \<open>\<open>i\<close> is the parameter \<open>id\<close>, \<open>closed_editingId\<close> the \<open>editingId\<close> of the closure.\<close>
  "deleteNote_resume i closed_editingId r s =
     (case r of
        Inr _ \<Rightarrow>
          (let s1 = s\<lparr>notes_s := filter (\<lambda>n. note_id n \<noteq> i) (notes_s s)\<rparr>;
               s2 = (if closed_editingId = Some i then cancelEdit s1 else s1)
           in s2\<lparr>deletingId := None\<rparr>)
      | Inl e \<Rightarrow> s\<lparr>err := message_of e ''Failed to delete note.'', deletingId := None\<rparr>)"

section \<open>What the rendered page lets the user do\<close>

text \<open>
  The JSX of lines 134 to 238: the rows exist when \<open>isLoading\<close> is false, a disabled
  button does not call its handler, and the text area with the buttons Save and Cancel
  exists in the row of the note whose id is \<open>editingId\<close>. A click that does nothing
  leaves the state as it is and starts no request.
\<close>

definition rendered_rows :: "state \<Rightarrow> Note list" where
  "rendered_rows s = (if isLoading s then [] else notes_s s)"

definition edit_controls_rendered :: "state \<Rightarrow> bool" where
  "edit_controls_rendered s = list_ex (\<lambda>n. editingId s = Some (note_id n)) (rendered_rows s)"

definition click_Refresh :: "state \<Rightarrow> started" where
  "click_Refresh s = (if isLoading s then (s, None) else loadNotes s)"

definition submit_form :: "state \<Rightarrow> started" where
  "submit_form s = (if \<not> canAdd s then (s, None) else addNote s)"

definition click_Edit :: "nat \<Rightarrow> state \<Rightarrow> state" where
  \<comment> \<open>The button Edit of row \<open>k\<close>, \<open>disabled={editingId !== null || isDeleting}\<close>.\<close>
  "click_Edit k s =
     (if k < length (rendered_rows s) then
        (let n = rendered_rows s ! k in
         if editingId s \<noteq> None \<or> deletingId s = Some (note_id n) then s
         else startEdit n s)
      else s)"

definition click_Delete :: "nat \<Rightarrow> state \<Rightarrow> started" where
  \<comment> \<open>The button Delete of row \<open>k\<close>, \<open>disabled={isDeleting || editingId === n.id}\<close>.\<close>
  "click_Delete k s =
     (if k < length (rendered_rows s) then
        (let n = rendered_rows s ! k in
         if deletingId s = Some (note_id n) \<or> editingId s = Some (note_id n) then (s, None)
         else deleteNote (note_id n) s)
      else (s, None))"

definition click_Save :: "state \<Rightarrow> started" where
  "click_Save s =
     (if edit_controls_rendered s \<and> \<not> (savingEdit s \<or> length (trim (editingText s)) = 0)
      then saveEdit s else (s, None))"

definition click_Cancel :: "state \<Rightarrow> state" where
  "click_Cancel s = (if edit_controls_rendered s then cancelEdit s else s)"

definition change_editingText :: "string \<Rightarrow> state \<Rightarrow> state" where
  "change_editingText v s = (if edit_controls_rendered s then s\<lparr>editingText := v\<rparr> else s)"

definition change_newText :: "string \<Rightarrow> state \<Rightarrow> state" where
  "change_newText v s = s\<lparr>newText := v\<rparr>"

section \<open>The store\<close>

text \<open>
  Modelled from the spec: the server of the notes is not among the sources. Section 6
  gives its contract: List answers 200 with the array of the notes, Create answers 201
  with the new note, Update answers 200 with the updated note, Delete answers 200 with
  \<open>{deleted, id}\<close>, and a failure is a status outside 200 to 299 with a body text. Section 3
  makes the id store-assigned and unique, and the two timestamps equal until the first
  edit. The time of handling is an argument; the status and text of a failure are those
  of a missing note.
\<close>

record store =
  rows :: "Note list"
  next_id :: nat

datatype reply = Success nat payload | Failure nat string

definition new_store :: store where
  "new_store = \<lparr>rows = [], next_id = 1\<rparr>"

fun handle :: "string \<Rightarrow> request \<Rightarrow> store \<Rightarrow> store \<times> reply" where
  \<comment> \<open>Modelled from the spec: the server's handlers are not among the sources; one
      equation for each row of the table of section 6.\<close>
  "handle now GET_notes st = (st, Success 200 (Notes (rows st)))"
| "handle now (POST_notes t) st =
     (let n = \<lparr>note_id = next_id st, note_text = t, created_at = now, updated_at = now\<rparr>
      in (st\<lparr>rows := rows st @ [n], next_id := Suc (next_id st)\<rparr>, Success 201 (One n)))"
| "handle now (PUT_note i t) st =
     (case find (\<lambda>n. note_id n = i) (rows st) of
        None \<Rightarrow> (st, Failure 404 ''Note not found'')
      | Some n \<Rightarrow>
          (let n' = n\<lparr>note_text := t, updated_at := now\<rparr>
           in (st\<lparr>rows := map (\<lambda>m. if note_id m = i then n' else m) (rows st)\<rparr>,
               Success 200 (One n'))))"
| "handle now (DELETE_note i) st =
     (case find (\<lambda>n. note_id n = i) (rows st) of
        None \<Rightarrow> (st, Failure 404 ''Note not found'')
      | Some n \<Rightarrow>
          (st\<lparr>rows := filter (\<lambda>m. note_id m \<noteq> i) (rows st)\<rparr>, Success 200 (Deleted True i)))"

definition response_of :: "(payload \<Rightarrow> string) \<Rightarrow> reply \<Rightarrow> payload response" where
  \<comment> \<open>The response that carries a reply. \<open>stringify\<close> gives the text of a JSON value.
      The client reads the text of a response that is not ok only, and the content type
      and the JSON value of a response that is ok only.\<close>
  "response_of stringify r =
     (case r of
        Success st v \<Rightarrow>
          \<lparr>status = st, content_type = Some ''application/json'',
           body_text = Inr (stringify v), body_json = Inr v\<rparr>
      | Failure st msg \<Rightarrow>
          \<lparr>status = st, content_type = Some ''text/plain'',
           body_text = Inr msg, body_json = Inl (ErrorObj ''Unexpected token'')\<rparr>)"

section \<open>The component, its requests in flight and the store\<close>

record flight =
  waiting :: suspended
  sent :: request
  answer :: "reply option"

record system =
  client :: state
  server :: store
  flights :: "flight list"

datatype event =
    Click_Refresh
  | Change_newText string
  | Submit
  | Click_Edit nat
  | Change_editingText string
  | Click_Save
  | Click_Cancel
  | Click_Delete nat
  | Serve nat string
  | Arrive nat
  | Reject nat thrown
  \<comment> \<open>What the user does, and for the flight at a position: the store handles its request
      at a time, its response arrives, or its \<open>fetch\<close> rejects.\<close>

definition resume :: "suspended \<Rightarrow> thrown + payload option \<Rightarrow> state \<Rightarrow> state option" where
  \<comment> \<open>The rest of the body of a suspended call. \<open>api<T>\<close> asserts the type of its result
      without a check, and the handlers go on with whatever value they get. The result
      is \<open>None\<close> where the state that the code reaches is not a state of this model: the
      list of the notes is not an array, or holds a value that is not a note, or the
      update of the list raises on \<open>undefined\<close>. A value without a member \<open>id\<close>, or with an
      id that no note has, replaces no note in \<open>saveEdit\<close>.\<close>
  "resume k r s =
     (case k of
        In_loadNotes \<Rightarrow>
          (case r of
             Inl e \<Rightarrow> Some (loadNotes_resume (Inl e) s)
           | Inr (Some (Notes data)) \<Rightarrow> Some (loadNotes_resume (Inr data) s)
           | Inr _ \<Rightarrow> None)
      | In_addNote \<Rightarrow>
          (case r of
             Inl e \<Rightarrow> Some (addNote_resume (Inl e) s)
           | Inr (Some (One created)) \<Rightarrow> Some (addNote_resume (Inr created) s)
           | Inr _ \<Rightarrow> None)
      | In_saveEdit \<Rightarrow>
          (case r of
             Inl e \<Rightarrow> Some (saveEdit_resume (Inl e) s)
           | Inr (Some (One updated)) \<Rightarrow> Some (saveEdit_resume (Inr updated) s)
           | Inr (Some (Notes data)) \<Rightarrow> Some (cancelEdit s)
           | Inr (Some (Deleted b i)) \<Rightarrow>
               if list_ex (\<lambda>n. note_id n = i) (notes_s s) then None else Some (cancelEdit s)
           | Inr None \<Rightarrow> if notes_s s = [] then Some (cancelEdit s) else None)
      | In_deleteNote i closed_editingId \<Rightarrow> Some (deleteNote_resume i closed_editingId r s))"

definition launch :: "started \<Rightarrow> system \<Rightarrow> system" where
  "launch st sys =
     (case st of
        (s, None) \<Rightarrow> sys\<lparr>client := s\<rparr>
      | (s, Some (k, req)) \<Rightarrow>
          sys\<lparr>client := s, flights := flights sys @ [\<lparr>waiting = k, sent = req, answer = None\<rparr>]\<rparr>)"

definition settle :: "nat \<Rightarrow> thrown + payload response \<Rightarrow> system \<Rightarrow> system option" where
  \<comment> \<open>The flight at position \<open>k\<close> ends: \<open>api\<close> settles and the suspended call runs on.\<close>
  "settle k fetched sys =
     (case resume (waiting (flights sys ! k)) (api fetched) (client sys) of
        None \<Rightarrow> None
      | Some s \<Rightarrow>
          Some (sys\<lparr>client := s, flights := take k (flights sys) @ drop (Suc k) (flights sys)\<rparr>))"

definition step :: "(payload \<Rightarrow> string) \<Rightarrow> event \<Rightarrow> system \<Rightarrow> system option" where
  \<comment> \<open>An event that cannot happen in a state leaves it as it is.\<close>
  "step stringify ev sys =
     (case ev of
        Click_Refresh \<Rightarrow> Some (launch (click_Refresh (client sys)) sys)
      | Change_newText v \<Rightarrow> Some (sys\<lparr>client := change_newText v (client sys)\<rparr>)
      | Submit \<Rightarrow> Some (launch (submit_form (client sys)) sys)
      | Click_Edit k \<Rightarrow> Some (sys\<lparr>client := click_Edit k (client sys)\<rparr>)
      | Change_editingText v \<Rightarrow> Some (sys\<lparr>client := change_editingText v (client sys)\<rparr>)
      | Click_Save \<Rightarrow> Some (launch (click_Save (client sys)) sys)
      | Click_Cancel \<Rightarrow> Some (sys\<lparr>client := click_Cancel (client sys)\<rparr>)
      | Click_Delete k \<Rightarrow> Some (launch (click_Delete k (client sys)) sys)
      | Serve k now \<Rightarrow>
          (if k < length (flights sys) \<and> answer (flights sys ! k) = None then
             (let f = flights sys ! k; (st, r) = handle now (sent f) (server sys)
              in Some (sys\<lparr>server := st, flights := (flights sys)[k := f\<lparr>answer := Some r\<rparr>]\<rparr>))
           else Some sys)
      | Arrive k \<Rightarrow>
          (if k < length (flights sys) then
             (case answer (flights sys ! k) of
                None \<Rightarrow> Some sys
              | Some r \<Rightarrow> settle k (Inr (response_of stringify r)) sys)
           else Some sys)
      | Reject k e \<Rightarrow>
          (if k < length (flights sys) then settle k (Inl e) sys else Some sys))"

fun run :: "(payload \<Rightarrow> string) \<Rightarrow> event list \<Rightarrow> system \<Rightarrow> system option" where
  "run stringify [] sys = Some sys"
| "run stringify (ev # evs) sys =
     (case step stringify ev sys of None \<Rightarrow> None | Some sys' \<Rightarrow> run stringify evs sys')"

definition mounted :: "store \<Rightarrow> system" where
  \<comment> \<open>After the first render: the effect of lines 60 to 62 has called \<open>loadNotes\<close>.\<close>
  "mounted st = launch (loadNotes initial_state) \<lparr>client = initial_state, server = st, flights = []\<rparr>"

definition store_ok :: "store \<Rightarrow> bool" where
  \<comment> \<open>The ids of the store are unique and below the next id.\<close>
  "store_ok st =
     (distinct (map note_id (rows st)) \<and> list_all (\<lambda>n. note_id n < next_id st) (rows st))"

section \<open>Auxiliary definitions\<close>

definition ids :: "state \<Rightarrow> nat list" where
  "ids s = map note_id (notes_s s)"

definition read_nat :: "string \<Rightarrow> nat" where
  \<comment> \<open>The number that a string of decimal digits denotes.\<close>
  "read_nat cs = foldl (\<lambda>a c. 10 * a + (of_char c - 48)) 0 cs"

definition example_note :: "nat \<Rightarrow> string \<Rightarrow> Note" where
  "example_note i t =
     \<lparr>note_id = i, note_text = t, created_at = ''2024-05-01T10:00:00'',
      updated_at = ''2024-05-01T10:00:00''\<rparr>"

definition example_state :: state where
  \<comment> \<open>Two notes are shown and nothing is going on.\<close>
  "example_state =
     \<lparr>notes_s = [example_note 1 ''milk'', example_note 2 ''eggs''], newText = [], err = [],
      isLoading = False, isAdding = False, deletingId = None, editingId = None,
      editingText = [], savingEdit = False\<rparr>"

definition example_updated :: Note where
  "example_updated =
     \<lparr>note_id = 1, note_text = ''oat milk'', created_at = ''2024-05-01T10:00:00'',
      updated_at = ''2024-05-02T08:30:00''\<rparr>"

section \<open>Strings\<close>

lemmas example_defs = example_note_def example_state_def example_updated_def

lemma without_trailing_slashes_all:
  "list_all (\<lambda>c. c = CHR ''/'') s \<Longrightarrow> without_trailing_slashes s = []"
  by (simp add: without_trailing_slashes_def list_all_iff dropWhile_eq_Nil_conv)

lemma without_trailing_slashes_Cons:
  assumes "\<not> slashes_to_end (c # cs)"
  shows "without_trailing_slashes (c # cs) = c # without_trailing_slashes cs"
proof (cases "list_all (\<lambda>c. c = CHR ''/'') cs")
  case True
  with assms have "c \<noteq> CHR ''/''"
    by (simp add: slashes_to_end_def)
  with True show ?thesis
    by (simp add: without_trailing_slashes_def list_all_iff dropWhile_append dropWhile_eq_Nil_conv)
next
  case False
  then show ?thesis
    by (auto simp add: without_trailing_slashes_def list_all_iff dropWhile_append)
qed

text \<open>
  The regular expression removes the whole run of slashes at the end: its leftmost match
  starts where that run starts.
\<close>

lemma replace_slashes_at_end_eq:
  "replace_slashes_at_end s = without_trailing_slashes s"
proof (induction s)
  case Nil
  show ?case by (simp add: without_trailing_slashes_def)
next
  case (Cons c cs)
  show ?case
  proof (cases "slashes_to_end (c # cs)")
    case True
    then show ?thesis
      by (simp add: slashes_to_end_def without_trailing_slashes_all)
  next
    case False
    with Cons show ?thesis
      by (simp add: without_trailing_slashes_Cons)
  qed
qed

lemma API_BASE_eq_spec_base_path: "API_BASE env = spec_base_path env"
  by (cases env)
     (simp_all add: API_BASE_def spec_base_path_def replace_slashes_at_end_eq
        without_trailing_slashes_def)

lemma of_char_digit_char: "d < 10 \<Longrightarrow> of_char (digit_char d) = (48 + d :: nat)"
  by (simp add: digit_char_def)

text \<open>The rendering of a status is its decimal numeral: reading it back gives the status.\<close>

lemma read_nat_show_nat: "read_nat (show_nat n) = n"
proof (induction n rule: show_nat.induct)
  case (1 n)
  show ?case
  proof (cases "n < 10")
    case True
    then show ?thesis
      by (subst show_nat.simps) (simp add: read_nat_def of_char_digit_char)
  next
    case False
    with 1 show ?thesis
      by (subst show_nat.simps) (simp add: read_nat_def of_char_digit_char)
  qed
qed

lemma show_nat_not_Nil: "show_nat n \<noteq> []"
  by (subst show_nat.simps) simp

lemma digit_char_values:
  "digit_char 0 = CHR ''0''" "digit_char 1 = CHR ''1''" "digit_char 2 = CHR ''2''"
  "digit_char 3 = CHR ''3''" "digit_char 4 = CHR ''4''" "digit_char 5 = CHR ''5''"
  "digit_char 6 = CHR ''6''" "digit_char 7 = CHR ''7''" "digit_char 8 = CHR ''8''"
  "digit_char 9 = CHR ''9''"
  by code_simp+

lemma digit_char_is_digit: "d < 10 \<Longrightarrow> digit_char d \<in> set ''0123456789''"
proof -
  assume "d < 10"
  then have "d \<in> {0, 1, 2, 3, 4, 5, 6, 7, 8, 9}"
    by auto
  then show ?thesis
    using digit_char_values by auto
qed

lemma show_nat_digits: "list_all (\<lambda>c. c \<in> set ''0123456789'') (show_nat n)"
proof (induction n rule: show_nat.induct)
  case (1 n)
  show ?case
  proof (cases "n < 10")
    case True
    then show ?thesis
      by (subst show_nat.simps) (simp add: digit_char_is_digit del: set_simps)
  next
    case False
    with 1 have "list_all (\<lambda>c. c \<in> set ''0123456789'') (show_nat (n div 10))"
      by simp
    moreover have "digit_char (n mod 10) \<in> set ''0123456789''"
      by (rule digit_char_is_digit) simp
    ultimately show ?thesis
      using False by (subst show_nat.simps) (simp del: set_simps)
  qed
qed

lemma digit_char_not_zero: "0 < d \<Longrightarrow> d < 10 \<Longrightarrow> digit_char d \<noteq> CHR ''0''"
proof
  assume d: "0 < d" "d < 10" and "digit_char d = CHR ''0''"
  then have "of_char (digit_char d) = (of_char CHR ''0'' :: nat)"
    by simp
  with d show False
    by (simp add: of_char_digit_char)
qed

lemma hd_show_nat: "0 < n \<Longrightarrow> hd (show_nat n) \<noteq> CHR ''0''"
proof (induction n rule: show_nat.induct)
  case (1 n)
  show ?case
  proof (cases "n < 10")
    case True
    with "1.prems" show ?thesis
      by (subst show_nat.simps) (simp add: digit_char_not_zero)
  next
    case False
    then have "0 < n div 10"
      by (simp add: div_greater_zero_iff)
    with 1 False have "hd (show_nat (n div 10)) \<noteq> CHR ''0''"
      by simp
    with False show ?thesis
      by (subst show_nat.simps) (simp add: show_nat_not_Nil)
  qed
qed

lemma length_show_nat_small: "n < 10 \<Longrightarrow> length (show_nat n) = 1"
  by (subst show_nat.simps) simp

lemma show_nat_no_leading_zero: "1 < length (show_nat n) \<Longrightarrow> hd (show_nat n) \<noteq> CHR ''0''"
proof -
  assume l: "1 < length (show_nat n)"
  have "\<not> n < 10"
    using l length_show_nat_small [of n] by auto
  then have "0 < n" by simp
  then show ?thesis by (rule hd_show_nat)
qed

lemma foldl_show_nat: "foldl (\<lambda>a c. 10 * a + (of_char c - 48)) 0 (show_nat n) = n"
  using read_nat_show_nat [of n] by (simp add: read_nat_def)

section \<open>The ids of the notes\<close>

lemma ids_saveEdit_resume: "ids (saveEdit_resume r s) = ids s"
  by (cases r) (simp_all add: ids_def saveEdit_resume_def cancelEdit_def comp_def)

lemma distinct_ids_deleteNote_resume:
  "distinct (ids s) \<Longrightarrow> distinct (ids (deleteNote_resume i c r s))"
  by (cases r)
     (simp_all add: ids_def deleteNote_resume_def cancelEdit_def Let_def distinct_map_filter)

lemma ids_addNote_resume:
  "ids (addNote_resume (Inr created) s) = note_id created # ids s"
  by (simp add: ids_def addNote_resume_def)

lemma ids_loadNotes_resume:
  "ids (loadNotes_resume (Inr data) s) = map note_id data"
  by (simp add: ids_def loadNotes_resume_def)

lemma distinct_ids_addNote_resume:
  "distinct (ids s) \<Longrightarrow> note_id created \<notin> set (ids s) \<Longrightarrow>
   distinct (ids (addNote_resume (Inr created) s))"
  by (simp add: ids_addNote_resume)

lemma distinct_ids_loadNotes_resume:
  "distinct (map note_id data) \<Longrightarrow> distinct (ids (loadNotes_resume (Inr data) s))"
  by (simp add: ids_loadNotes_resume)

lemma filter_absent_id:
  "i \<notin> note_id ` set xs \<Longrightarrow> filter (\<lambda>m. note_id m \<noteq> i) xs = xs"
  by (auto simp add: filter_id_conv)

subsection \<open>The store keeps its ids unique\<close>

lemma find_note_id: "find (\<lambda>n. note_id n = i) ns = Some n \<Longrightarrow> note_id n = i"
  by (induction ns) (auto split: if_splits)

lemma map_note_id_replace:
  "note_id n' = i \<Longrightarrow>
   map note_id (map (\<lambda>m. if note_id m = i then n' else m) ns) = map note_id ns"
  by (induction ns) auto

lemma list_all_replace:
  "list_all P ns \<Longrightarrow> P n' \<Longrightarrow> list_all P (map (\<lambda>m. if note_id m = i then n' else m) ns)"
  by (induction ns) auto

lemma new_store_ok: "store_ok new_store"
  by (simp add: store_ok_def new_store_def)

lemma handle_store_ok:
  assumes "store_ok st"
  shows "store_ok (fst (handle now req st))"
proof (cases req)
  case GET_notes
  with assms show ?thesis by simp
next
  case (POST_notes t)
  from assms have "next_id st \<notin> note_id ` set (rows st)"
    by (auto simp add: store_ok_def list_all_iff)
  with assms POST_notes show ?thesis
    by (auto simp add: store_ok_def Let_def list_all_iff less_Suc_eq)
next
  case (PUT_note i t)
  show ?thesis
  proof (cases "find (\<lambda>n. note_id n = i) (rows st)")
    case None
    with assms PUT_note show ?thesis by simp
  next
    case (Some n)
    then have i: "note_id n = i"
      by (rule find_note_id)
    from Some have "n \<in> set (rows st)"
      by (auto simp add: find_Some_iff)
    with assms have lt: "note_id n < next_id st"
      by (simp add: store_ok_def list_all_iff)
    let ?n' = "n\<lparr>note_text := t, updated_at := now\<rparr>"
    let ?st' = "fst (handle now req st)"
    have rows': "rows ?st' = map (\<lambda>m. if note_id m = i then ?n' else m) (rows st)"
      and next': "next_id ?st' = next_id st"
      using Some PUT_note by (simp_all add: Let_def)
    have "map note_id (rows ?st') = map note_id (rows st)"
      unfolding rows' by (rule map_note_id_replace) (simp add: i)
    moreover have "list_all (\<lambda>n. note_id n < next_id st) (rows ?st')"
      unfolding rows' using assms lt i
      by (intro list_all_replace) (simp_all add: store_ok_def)
    ultimately show ?thesis
      using assms next' by (simp add: store_ok_def)
  qed
next
  case (DELETE_note i)
  with assms show ?thesis
    by (auto simp add: store_ok_def list_all_iff distinct_map_filter split: option.splits)
qed

lemma server_launch: "server (launch st sys) = server sys"
  by (cases st) (auto simp add: launch_def split: option.splits)

lemma server_settle: "settle k fetched sys = Some sys' \<Longrightarrow> server sys' = server sys"
  by (auto simp add: settle_def split: option.splits)

lemma step_store_ok:
  assumes "store_ok (server sys)" and "step stringify ev sys = Some sys'"
  shows "store_ok (server sys')"
proof (cases ev)
  case (Serve k now)
  show ?thesis
  proof (cases "k < length (flights sys) \<and> answer (flights sys ! k) = None")
    case True
    obtain st r where h: "handle now (sent (flights sys ! k)) (server sys) = (st, r)"
      by (cases "handle now (sent (flights sys ! k)) (server sys)")
    with True Serve assms(2) have "server sys' = st"
      by (auto simp add: step_def Let_def)
    moreover from handle_store_ok [OF assms(1), of now "sent (flights sys ! k)"] h
    have "store_ok st" by simp
    ultimately show ?thesis by simp
  next
    case False
    with Serve assms show ?thesis
      by (auto simp add: step_def)
  qed
next
  case (Arrive k)
  with assms show ?thesis
    by (auto simp add: step_def server_settle split: if_splits option.splits)
next
  case (Reject k e)
  with assms show ?thesis
    by (auto simp add: step_def server_settle split: if_splits)
qed (use assms in \<open>auto simp add: step_def server_launch\<close>)

text \<open>
  In every run the store has one note per id, so every list that it answers with has
  unique ids.
\<close>

lemma run_store_ok:
  "store_ok (server sys) \<Longrightarrow> run stringify evs sys = Some sys' \<Longrightarrow> store_ok (server sys')"
proof (induction evs arbitrary: sys)
  case Nil
  then show ?case by simp
next
  case (Cons ev evs)
  from Cons.prems(2) obtain mid where
    mid: "step stringify ev sys = Some mid" "run stringify evs mid = Some sys'"
    by (auto split: option.splits)
  from step_store_ok [OF Cons.prems(1) mid(1)] have "store_ok (server mid)" .
  from Cons.IH [OF this mid(2)] show ?case .
qed

section \<open>Saving an edit\<close>

text \<open>
  Claim C1. When the request of \<open>saveEdit\<close> succeeds, every note of the list whose id is
  the id of the returned record is replaced by that record and every other note stays
  as it is, at its place. The state \<open>s\<close> is the one in which the response arrives,
  whatever happened since the request was sent; in particular the list is the same
  when \<open>cancelEdit\<close> has run in between.
\<close>

theorem saveEdit_success_replaces_by_id:
  "notes_s (saveEdit_resume (Inr updated) (cancelEdit s))
     = notes_s (saveEdit_resume (Inr updated) s) \<and>
   length (notes_s (saveEdit_resume (Inr updated) s)) = length (notes_s s) \<and>
   (\<forall>j < length (notes_s s).
      notes_s (saveEdit_resume (Inr updated) s) ! j =
        (if note_id (notes_s s ! j) = note_id updated then updated else notes_s s ! j))"
  by (simp add: saveEdit_resume_def cancelEdit_def)

text \<open>
  The note with id 1 is edited and saved, the session is cancelled while the request is
  in flight, and the response still replaces the first note and leaves the second.
\<close>

theorem saveEdit_success_replaces_by_id_witness:
  "(0 :: nat) < length (notes_s example_state) \<and> 1 < length (notes_s example_state) \<and>
   notes_s (saveEdit_resume (Inr example_updated)
      (cancelEdit (fst (saveEdit (startEdit (example_note 1 ''milk'') example_state))))) ! 0
     = example_updated \<and>
   notes_s (saveEdit_resume (Inr example_updated)
      (cancelEdit (fst (saveEdit (startEdit (example_note 1 ''milk'') example_state))))) ! 1
     = example_note 2 ''eggs''"
  using saveEdit_success_replaces_by_id
    [of example_updated "fst (saveEdit (startEdit (example_note 1 ''milk'') example_state))"]
  by (simp add: example_defs saveEdit_def startEdit_def trim_def is_white_space_def Let_def)

text \<open>
  Claim C10. When the request of \<open>saveEdit\<close> succeeds, \<open>cancelEdit\<close> runs without a
  condition: whatever session is open in the state in which the response arrives is
  closed, also a session that was started for another note after a cancel.
\<close>

theorem saveEdit_success_closes_any_session:
  "editingId (saveEdit_resume (Inr updated) s) = None \<and>
   editingText (saveEdit_resume (Inr updated) s) = [] \<and>
   savingEdit (saveEdit_resume (Inr updated) s) = False \<and>
   editingId (startEdit n (cancelEdit s)) = Some (note_id n) \<and>
   editingText (startEdit n (cancelEdit s)) = note_text n \<and>
   editingId (saveEdit_resume (Inr updated) (startEdit n (cancelEdit s))) = None \<and>
   editingText (saveEdit_resume (Inr updated) (startEdit n (cancelEdit s))) = [] \<and>
   savingEdit (saveEdit_resume (Inr updated) (startEdit n (cancelEdit s))) = False"
  by (simp add: saveEdit_resume_def cancelEdit_def startEdit_def)

text \<open>
  Claim C5. When \<open>saveEdit\<close> has sent its request from a state \<open>s\<close> and the request
  fails, the session is still open on the same note with the same draft, \<open>savingEdit\<close>
  is false and \<open>err\<close> is the message of the failure: the message of the thrown \<open>Error\<close>,
  or \<open>Failed to update note.\<close> for a thrown value that is not an \<open>Error\<close>. The notes are
  as they were. In any later state the failure leaves the session and the draft of that
  state.
\<close>

theorem saveEdit_failure_keeps_session:
  assumes "saveEdit s = (s1, Some p)"
  shows "editingId s \<noteq> None \<and>
         editingId (saveEdit_resume (Inl e) s1) = editingId s \<and>
         editingText (saveEdit_resume (Inl e) s1) = editingText s \<and>
         savingEdit (saveEdit_resume (Inl e) s1) = False \<and>
         err (saveEdit_resume (Inl e) s1)
           = (case e of ErrorObj m \<Rightarrow> m | NonError \<Rightarrow> ''Failed to update note.'') \<and>
         notes_s (saveEdit_resume (Inl e) s1) = notes_s s \<and>
         editingId (saveEdit_resume (Inl e) later) = editingId later \<and>
         editingText (saveEdit_resume (Inl e) later) = editingText later \<and>
         savingEdit (saveEdit_resume (Inl e) later) = False \<and>
         err (saveEdit_resume (Inl e) later)
           = (case e of ErrorObj m \<Rightarrow> m | NonError \<Rightarrow> ''Failed to update note.'')"
  using assms
  by (auto simp add: saveEdit_def saveEdit_resume_def message_of_def Let_def
      split: option.splits if_splits)

text \<open>
  The draft \<open>hello\<close> of the specification, with a failure of status 500 and with a thrown
  value that is not an \<open>Error\<close>.
\<close>

theorem saveEdit_failure_keeps_session_witness:
  "(\<exists>s1 p.
      saveEdit (change_editingText ''hello'' (startEdit (example_note 1 ''milk'') example_state))
        = (s1, Some p) \<and>
      editingId (saveEdit_resume (Inl (ErrorObj ''Request failed (500)'')) s1) = Some 1 \<and>
      editingText (saveEdit_resume (Inl (ErrorObj ''Request failed (500)'')) s1) = ''hello'' \<and>
      savingEdit (saveEdit_resume (Inl (ErrorObj ''Request failed (500)'')) s1) = False \<and>
      err (saveEdit_resume (Inl (ErrorObj ''Request failed (500)'')) s1)
        = ''Request failed (500)'' \<and>
      editingText (saveEdit_resume (Inl NonError) s1) = ''hello'' \<and>
      err (saveEdit_resume (Inl NonError) s1) = ''Failed to update note.'')"
proof -
  let ?s = "change_editingText ''hello'' (startEdit (example_note 1 ''milk'') example_state)"
  let ?s1 = "?s\<lparr>err := [], savingEdit := True\<rparr>"
  have h: "saveEdit ?s = (?s1, Some (In_saveEdit, PUT_note 1 ''hello''))"
    by (simp add: saveEdit_def change_editingText_def edit_controls_rendered_def
        rendered_rows_def startEdit_def example_defs trim_def is_white_space_def Let_def)
  have v: "editingId ?s = Some 1" "editingText ?s = ''hello''"
    by (simp_all add: change_editingText_def edit_controls_rendered_def
        rendered_rows_def startEdit_def example_defs)
  from saveEdit_failure_keeps_session [OF h, of "ErrorObj ''Request failed (500)''"]
       saveEdit_failure_keeps_session [OF h, of NonError] h v
  show ?thesis by simp
qed

section \<open>Starting an edit\<close>

text \<open>
  The function \<open>startEdit\<close> has no guard. Called for the second note while the first is
  being edited, it moves the session to the second note.
\<close>

theorem startEdit_during_session_counterexample:
  "editingId (startEdit (example_note 1 ''milk'') example_state) \<noteq> None \<and>
   startEdit (example_note 2 ''eggs'') (startEdit (example_note 1 ''milk'') example_state)
     \<noteq> startEdit (example_note 1 ''milk'') example_state \<and>
   editingId (startEdit (example_note 2 ''eggs'')
      (startEdit (example_note 1 ''milk'') example_state)) = Some 2 \<and>
   editingText (startEdit (example_note 2 ''eggs'')
      (startEdit (example_note 1 ''milk'') example_state)) = ''eggs''"
  by (simp add: example_defs startEdit_def)

text \<open>
  Claim C2, as amended. While an edit session is active the button Edit of every row is
  disabled: a click on it does not call \<open>startEdit\<close> and changes no field of the state.
\<close>

theorem click_Edit_during_session:
  "editingId s \<noteq> None \<Longrightarrow> click_Edit k s = s"
  by (simp add: click_Edit_def Let_def)

theorem click_Edit_during_session_witness:
  "editingId (startEdit (example_note 1 ''milk'') example_state) \<noteq> None \<and>
   click_Edit 1 (startEdit (example_note 1 ''milk'') example_state)
     = startEdit (example_note 1 ''milk'') example_state"
proof -
  have h: "editingId (startEdit (example_note 1 ''milk'') example_state) \<noteq> None"
    by (simp add: startEdit_def)
  from click_Edit_during_session [OF h, of 1] h show ?thesis by simp
qed

section \<open>One note per id\<close>

text \<open>
  Claim C3. The user submits a note while the first load is in flight. The store handles
  the creation, then the listing; the response of the listing arrives, then the response
  of the creation. The store holds one note, with id 1, and the component holds it
  twice: the listing already contains the note that the creation prepends.
\<close>

theorem duplicate_after_race:
  "(case run stringify
           [Change_newText ''milk'', Submit,
            Serve 1 ''2024-05-01T10:00:05'', Serve 0 ''2024-05-01T10:00:06'',
            Arrive 0, Arrive 0]
           (mounted new_store) of
      None \<Rightarrow> False
    | Some sys \<Rightarrow>
        map note_id (rows (server sys)) = [1] \<and>
        map note_id (notes_s (client sys)) = [1, 1] \<and>
        \<not> distinct (map note_id (notes_s (client sys))) \<and>
        flights sys = [])"
  by (simp add: mounted_def new_store_def initial_state_def loadNotes_def launch_def step_def
      settle_def resume_def api_def ok_def response_of_def loadNotes_resume_def addNote_resume_def
      change_newText_def submit_form_def canAdd_def addNote_def trim_def is_white_space_def
      Let_def)

section \<open>The base path\<close>

text \<open>
  Claim C4. The base path of \<open>src/frontend/src/App.tsx\<close> is the one of the specification
  for every override and without one. The base path of \<open>src/unnamed/part_000\<close> keeps the
  slash at the end of the override \<open>http://localhost:8000/\<close>.
\<close>

theorem API_BASE_part_000_keeps_slashes:
  "API_BASE env = spec_base_path env \<and>
   API_BASE (Some ''http://localhost:8000/'') = ''http://localhost:8000/api'' \<and>
   spec_base_path (Some ''http://localhost:8000/'') = ''http://localhost:8000/api'' \<and>
   API_BASE_part_000 (Some ''http://localhost:8000/'') = ''http://localhost:8000//api''"
  by (simp add: API_BASE_eq_spec_base_path)
     (simp add: spec_base_path_def API_BASE_part_000_def without_trailing_slashes_def)

section \<open>Deleting a note\<close>

lemma filter_removes_the_one:
  assumes "ns = xs @ n # ys" "note_id n = i" "i \<notin> note_id ` set xs" "i \<notin> note_id ` set ys"
  shows "filter (\<lambda>m. note_id m \<noteq> i) ns = xs @ ys"
  using assms by (simp add: filter_absent_id)




section \<open>Preconditions\<close>

text \<open>
  Claim C7. When the trimmed text is empty or the busy flag is set, \<open>addNote\<close> returns
  before any state update and before the call of \<open>api\<close>: the state is the same and no
  request is sent. The same holds for \<open>saveEdit\<close>, also without an edit session, and for
  the form and the button that call the two.
\<close>

theorem violated_precondition_is_noop:
  "(trim (newText s) = [] \<or> isAdding s \<longrightarrow>
      addNote s = (s, None) \<and> submit_form s = (s, None)) \<and>
   (editingId s = None \<or> trim (editingText s) = [] \<or> savingEdit s \<longrightarrow>
      saveEdit s = (s, None) \<and> click_Save s = (s, None))"
  by (auto simp add: addNote_def submit_form_def canAdd_def saveEdit_def click_Save_def Let_def
      split: option.splits)

text \<open>An input of three spaces, and a draft of a space and a tab in an open session.\<close>

theorem violated_precondition_is_noop_witness:
  "trim (newText (example_state
      \<lparr>newText := ''   '', editingId := Some 1, editingText := '' '' @ [CHR 0x09]\<rparr>)) = [] \<and>
   trim (editingText (example_state
      \<lparr>newText := ''   '', editingId := Some 1, editingText := '' '' @ [CHR 0x09]\<rparr>)) = [] \<and>
   addNote (example_state
      \<lparr>newText := ''   '', editingId := Some 1, editingText := '' '' @ [CHR 0x09]\<rparr>)
     = (example_state
      \<lparr>newText := ''   '', editingId := Some 1, editingText := '' '' @ [CHR 0x09]\<rparr>, None) \<and>
   saveEdit (example_state
      \<lparr>newText := ''   '', editingId := Some 1, editingText := '' '' @ [CHR 0x09]\<rparr>)
     = (example_state
      \<lparr>newText := ''   '', editingId := Some 1, editingText := '' '' @ [CHR 0x09]\<rparr>, None)"
proof -
  let ?s = "example_state
      \<lparr>newText := ''   '', editingId := Some 1, editingText := '' '' @ [CHR 0x09]\<rparr>"
  have t: "trim (newText ?s) = []" "trim (editingText ?s) = []"
    by (simp_all add: trim_def is_white_space_def)
  from violated_precondition_is_noop [of ?s] t show ?thesis
    by simp
qed

section \<open>Failures\<close>




text \<open>
  The body of a response that is not ok is read as text and never parsed. A status 502
  with a page of a proxy as its body surfaces that text, not the synthesized message;
  and when the reading of the body rejects, the error of the reading is surfaced.
\<close>

theorem unparseable_body_counterexample:
  "\<not> ok \<lparr>status = 502, content_type = Some ''text/html'',
          body_text = Inr ''<html>Bad Gateway</html>'',
          body_json = Inl (ErrorObj ''Unexpected token'') :: thrown + payload\<rparr> \<and>
   api (Inr \<lparr>status = 502, content_type = Some ''text/html'',
          body_text = Inr ''<html>Bad Gateway</html>'',
          body_json = Inl (ErrorObj ''Unexpected token'') :: thrown + payload\<rparr>)
     = Inl (ErrorObj ''<html>Bad Gateway</html>'') \<and>
   api (Inr \<lparr>status = 502, content_type = Some ''text/html'',
          body_text = Inr ''<html>Bad Gateway</html>'',
          body_json = Inl (ErrorObj ''Unexpected token'') :: thrown + payload\<rparr>)
     \<noteq> Inl (ErrorObj ''Request failed (502)'') \<and>
   api (Inr \<lparr>status = 502, content_type = None,
          body_text = Inl (ErrorObj ''Failed to read the body''),
          body_json = Inl (ErrorObj ''Failed to read the body'') :: thrown + payload\<rparr>)
     = Inl (ErrorObj ''Failed to read the body'')"
  by (simp add: api_def ok_def)

text \<open>
  Claim C9, as amended. For a response whose status is outside 200 to 299 and whose
  body is read as the text
  \<open>body\<close>, \<open>api\<close> throws an \<open>Error\<close> whose message is \<open>body\<close> when it is not empty,
  whether it parses or not, and \<open>Request failed (\<close>, the status and \<open>)\<close> when it is
  empty; each of the four handlers stores that message in \<open>err\<close>. When the reading of the
  body rejects, \<open>api\<close> throws what the reading threw. The status is written as its
  decimal numeral: digits only, no zero in front, of the value of the status.
\<close>

theorem error_of_failed_response:
  assumes "\<not> (200 \<le> status res \<and> status res \<le> 299)"
  shows "(\<forall>body. body_text res = Inr body \<longrightarrow>
            api (Inr res) =
              Inl (ErrorObj (if body \<noteq> [] then body
                             else ''Request failed ('' @ show_nat (status res) @ '')'')) \<and>
            (\<exists>s'. resume k (api (Inr res)) s = Some s' \<and>
                  err s' = (if body \<noteq> [] then body
                            else ''Request failed ('' @ show_nat (status res) @ '')''))) \<and>
         (\<forall>e. body_text res = Inl e \<longrightarrow> api (Inr res) = Inl e) \<and>
         show_nat (status res) \<noteq> [] \<and>
         list_all (\<lambda>c. c \<in> set ''0123456789'') (show_nat (status res)) \<and>
         (1 < length (show_nat (status res)) \<longrightarrow> hd (show_nat (status res)) \<noteq> CHR ''0'') \<and>
         foldl (\<lambda>a c. 10 * a + (of_char c - 48)) 0 (show_nat (status res)) = status res"
proof (intro conjI allI impI)
  fix body
  assume t: "body_text res = Inr body"
  with assms show "api (Inr res) =
      Inl (ErrorObj (if body \<noteq> [] then body
                     else ''Request failed ('' @ show_nat (status res) @ '')''))"
    by (simp add: api_def ok_def request_failed_def)
  with assms t show "\<exists>s'. resume k (api (Inr res)) s = Some s' \<and>
      err s' = (if body \<noteq> [] then body
                else ''Request failed ('' @ show_nat (status res) @ '')'')"
    by (cases k)
       (simp_all add: resume_def loadNotes_resume_def addNote_resume_def
          saveEdit_resume_def deleteNote_resume_def message_of_def)
next
  fix e
  assume "body_text res = Inl e"
  with assms show "api (Inr res) = Inl e"
    by (simp add: api_def ok_def)
next
  show "show_nat (status res) \<noteq> []"
    by (rule show_nat_not_Nil)
  show "list_all (\<lambda>c. c \<in> set ''0123456789'') (show_nat (status res))"
    by (rule show_nat_digits)
  show "hd (show_nat (status res)) \<noteq> CHR ''0''" if "1 < length (show_nat (status res))"
    using that by (rule show_nat_no_leading_zero)
  show "foldl (\<lambda>a c. 10 * a + (of_char c - 48)) 0 (show_nat (status res)) = status res"
    by (rule foldl_show_nat)
qed

text \<open>
  The statuses 404, 500 and 0 with an empty body, and a status 502 with a body that is
  not JSON.
\<close>

theorem error_of_failed_response_witness:
  "\<not> ok \<lparr>status = 404, content_type = None, body_text = Inr [],
          body_json = Inl NonError :: thrown + payload\<rparr> \<and>
   api (Inr \<lparr>status = 404, content_type = None, body_text = Inr [],
          body_json = Inl NonError :: thrown + payload\<rparr>)
     = Inl (ErrorObj ''Request failed (404)'') \<and>
   \<not> ok \<lparr>status = 500, content_type = None, body_text = Inr [],
          body_json = Inl NonError :: thrown + payload\<rparr> \<and>
   api (Inr \<lparr>status = 500, content_type = None, body_text = Inr [],
          body_json = Inl NonError :: thrown + payload\<rparr>)
     = Inl (ErrorObj ''Request failed (500)'') \<and>
   \<not> ok \<lparr>status = 0, content_type = None, body_text = Inr [],
          body_json = Inl NonError :: thrown + payload\<rparr> \<and>
   api (Inr \<lparr>status = 0, content_type = None, body_text = Inr [],
          body_json = Inl NonError :: thrown + payload\<rparr>)
     = Inl (ErrorObj ''Request failed (0)'') \<and>
   \<not> ok \<lparr>status = 502, content_type = Some ''text/html'',
          body_text = Inr ''<html>Bad Gateway</html>'',
          body_json = Inl NonError :: thrown + payload\<rparr> \<and>
   api (Inr \<lparr>status = 502, content_type = Some ''text/html'',
          body_text = Inr ''<html>Bad Gateway</html>'',
          body_json = Inl NonError :: thrown + payload\<rparr>)
     = Inl (ErrorObj ''<html>Bad Gateway</html>'') \<and>
   foldl (\<lambda>a c. 10 * a + (of_char c - 48)) 0 (show_nat 404) = (404 :: nat)"
proof -
  let ?a = "\<lparr>status = 404, content_type = None, body_text = Inr [],
          body_json = Inl NonError :: thrown + payload\<rparr>"
  let ?b = "\<lparr>status = 500, content_type = None, body_text = Inr [],
          body_json = Inl NonError :: thrown + payload\<rparr>"
  let ?c = "\<lparr>status = 0, content_type = None, body_text = Inr [],
          body_json = Inl NonError :: thrown + payload\<rparr>"
  let ?d = "\<lparr>status = 502, content_type = Some ''text/html'',
          body_text = Inr ''<html>Bad Gateway</html>'',
          body_json = Inl NonError :: thrown + payload\<rparr>"
  have a: "\<not> (200 \<le> status ?a \<and> status ?a \<le> 299)"
    and b: "\<not> (200 \<le> status ?b \<and> status ?b \<le> 299)"
    and c: "\<not> (200 \<le> status ?c \<and> status ?c \<le> 299)"
    and d: "\<not> (200 \<le> status ?d \<and> status ?d \<le> 299)"
    by simp_all
  have n: "show_nat 404 = ''404''" "show_nat 500 = ''500''" "show_nat 0 = ''0''"
    by code_simp+
  from error_of_failed_response [OF a, of In_loadNotes example_state]
       error_of_failed_response [OF b, of In_loadNotes example_state]
       error_of_failed_response [OF c, of In_loadNotes example_state]
       error_of_failed_response [OF d, of In_loadNotes example_state] n
  show ?thesis by (simp add: ok_def)
qed

end
